theory Spec2Isabelle
  imports Complex_Main "HOL-Library.Multiset"
begin

section \<open>Student marks analysis: data model\<close>

text \<open>
  The program (\<^verbatim>\<open>Student-Marks-analysis.py\<close>) keeps the marks in a two-dimensional
  NumPy array of shape \<^verbatim>\<open>(n_students, n_subjects)\<close>, one row per student. The array is
  modelled by its shape and its rows. The shape is kept beside the rows because an array
  with no rows still has a number of columns, and NumPy's reductions look at it.

  Numbers: NumPy computes in IEEE binary64. The model computes in exact real arithmetic,
  so every statement below about a mean or a deviation is a statement about the exact
  value of the expression NumPy evaluates, not about its rounding. Integer marks (the
  fixed data) are embedded in the reals.
\<close>

record ndarray2 =
  n_students :: nat
  n_subjects :: nat
  rows :: "real list list"

text \<open>A record is an array when the rows agree with the shape.\<close>

definition shape_ok :: "ndarray2 \<Rightarrow> bool" where
  "shape_ok a \<longleftrightarrow>
     length (rows a) = n_students a \<and> list_all (\<lambda>r. length r = n_subjects a) (rows a)"

text \<open>
  The exceptions the modelled code can raise. \<^verbatim>\<open>ValueError\<close> is what NumPy raises for a
  reduction without identity (\<^verbatim>\<open>maximum\<close>, \<^verbatim>\<open>minimum\<close>) over an axis of length zero;
  \<^verbatim>\<open>IndexError\<close> is what indexing an array with an out-of-bounds index array raises.
\<close>

datatype error = ValueError | IndexError

section \<open>The fixed data (\<^verbatim>\<open>create_student_data\<close>)\<close>

definition create_student_data :: "ndarray2 \<times> string list \<times> string list" where
  "create_student_data =
     (let marks = \<lparr> n_students = 5, n_subjects = 5,
                     rows = [[85, 78, 92, 88, 90],
                             [76, 82, 79, 85, 88],
                             [92, 95, 89, 91, 94],
                             [68, 72, 75, 70, 73],
                             [88, 85, 87, 89, 86]] \<rparr>;
          student_names = [''Alice'', ''Bob'', ''Charlie'', ''David'', ''Eve''];
          subjects = [''Math'', ''Physics'', ''Chemistry'', ''English'', ''Computer'']
      in (marks, student_names, subjects))"

text \<open>
  The invariants of the specification's data model (section 3), in its words: all rows
  have the same length \<open>C \<ge> 1\<close>, there are \<open>R \<ge> 1\<close> rows of non-negative numbers,
  the entity labels are \<open>R\<close> unique names and the category labels are \<open>C\<close> names.
\<close>

definition score_matrix_invariant :: "ndarray2 \<Rightarrow> bool" where
  "score_matrix_invariant m \<longleftrightarrow>
     shape_ok m \<and> 1 \<le> n_students m \<and> 1 \<le> n_subjects m \<and>
     list_all (list_all (\<lambda>x. 0 \<le> x)) (rows m)"

definition data_model_invariant :: "ndarray2 \<Rightarrow> string list \<Rightarrow> string list \<Rightarrow> bool" where
  "data_model_invariant m entity_labels category_labels \<longleftrightarrow>
     score_matrix_invariant m \<and>
     length entity_labels = n_students m \<and> distinct entity_labels \<and>
     length category_labels = n_subjects m"

section \<open>The statistics engine (\<^verbatim>\<open>calculate_student_statistics\<close>)\<close>

subsection \<open>NumPy's reductions over one row\<close>

text \<open>
  \<^verbatim>\<open>np.mean\<close> is the sum of the elements divided by their number. Over an empty slice
  NumPy warns and yields NaN without raising; the model has no NaN and yields the
  \<open>0\<close> of HOL's division by zero there. The value is never returned: the maximum of the
  same slice raises first (see \<open>calculate_student_statistics\<close>).
\<close>

definition np_mean :: "real list \<Rightarrow> real" where
  "np_mean xs = sum_list xs / real (length xs)"

text \<open>
  \<^verbatim>\<open>np.max\<close> and \<^verbatim>\<open>np.min\<close> fold the slice with \<^verbatim>\<open>maximum\<close> and \<^verbatim>\<open>minimum\<close>, starting
  from its first element; an empty slice has no first element and the call raises
  \<^verbatim>\<open>ValueError\<close>.
\<close>

fun np_max :: "real list \<Rightarrow> error + real" where
  "np_max [] = Inl ValueError"
| "np_max (x # xs) = Inr (fold max xs x)"

fun np_min :: "real list \<Rightarrow> error + real" where
  "np_min [] = Inl ValueError"
| "np_min (x # xs) = Inr (fold min xs x)"

text \<open>
  \<^verbatim>\<open>np.std\<close> with its parameter \<^verbatim>\<open>ddof\<close> (delta degrees of freedom): the mean of the
  slice is subtracted from every element, the differences are squared and summed, the
  sum is divided by \<^verbatim>\<open>max(N - ddof, 0)\<close>, and the square root is taken. The program calls
  \<^verbatim>\<open>np.std(marks, axis=1)\<close>, which leaves \<^verbatim>\<open>ddof\<close> at its default \<open>0\<close>. (Over an
  empty slice NumPy again warns and yields NaN; the program never gets there.)
\<close>

definition np_var :: "nat \<Rightarrow> real list \<Rightarrow> real" where
  "np_var ddof xs =
     (let arrmean = np_mean xs;
          x = map (\<lambda>a. a - arrmean) xs;
          x = map (\<lambda>d. d * d) x
      in sum_list x / real (length xs - ddof))"

definition np_std :: "nat \<Rightarrow> real list \<Rightarrow> real" where
  "np_std ddof xs = sqrt (np_var ddof xs)"

subsection \<open>Reductions along axis 1\<close>

text \<open>The first error of a list of results, or all the values.\<close>

fun collect :: "(error + 'a) list \<Rightarrow> error + 'a list" where
  "collect [] = Inr []"
| "collect (r # rs) =
     (case r of
        Inl e \<Rightarrow> Inl e
      | Inr v \<Rightarrow> (case collect rs of Inl e \<Rightarrow> Inl e | Inr vs \<Rightarrow> Inr (v # vs)))"

definition np_mean_axis1 :: "ndarray2 \<Rightarrow> real list" where
  "np_mean_axis1 a = map np_mean (rows a)"

text \<open>
  A reduction without identity refuses an axis of length zero whatever the number of
  rows, so the shape is looked at before the rows.
\<close>

definition np_max_axis1 :: "ndarray2 \<Rightarrow> error + real list" where
  "np_max_axis1 a =
     (if n_subjects a = 0 then Inl ValueError else collect (map np_max (rows a)))"

definition np_min_axis1 :: "ndarray2 \<Rightarrow> error + real list" where
  "np_min_axis1 a =
     (if n_subjects a = 0 then Inl ValueError else collect (map np_min (rows a)))"

definition np_std_axis1 :: "nat \<Rightarrow> ndarray2 \<Rightarrow> real list" where
  "np_std_axis1 ddof a = map (np_std ddof) (rows a)"

subsection \<open>The function\<close>

text \<open>
  The four reductions in the order of the source; the first exception ends the call, and
  then nothing is returned.
\<close>

definition calculate_student_statistics ::
    "ndarray2 \<Rightarrow> error + (real list \<times> real list \<times> real list \<times> real list)" where
  "calculate_student_statistics marks =
     (let averages = np_mean_axis1 marks in
      case np_max_axis1 marks of
        Inl e \<Rightarrow> Inl e
      | Inr maximums \<Rightarrow>
          (case np_min_axis1 marks of
             Inl e \<Rightarrow> Inl e
           | Inr minimums \<Rightarrow>
               (let std_devs = np_std_axis1 0 marks
                in Inr (averages, maximums, minimums, std_devs))))"

section \<open>The ranker (\<^verbatim>\<open>rank_students\<close>)\<close>

text \<open>
  Indexing an array with an array of indices: every index must be in bounds, otherwise
  the lookup raises \<^verbatim>\<open>IndexError\<close>. (NumPy also accepts negative indices; \<^verbatim>\<open>argsort\<close>
  returns none.)
\<close>

definition take_indices :: "'a list \<Rightarrow> nat list \<Rightarrow> error + 'a list" where
  "take_indices arr indices =
     (if list_all (\<lambda>i. i < length arr) indices
      then Inr (map (\<lambda>i. arr ! i) indices) else Inl IndexError)"

text \<open>
  \<^verbatim>\<open>np.argsort\<close> is NumPy's, not the program's; \<open>rank_students\<close> takes it as a
  parameter. What NumPy documents of it is \<open>argsort_ok\<close>: the result lists every index
  of the array once, and the elements read in that order ascend. The keys are of any
  linear order: the sort only compares them.
\<close>

definition argsort_ok :: "'b::linorder list \<Rightarrow> nat list \<Rightarrow> bool" where
  "argsort_ok xs indices \<longleftrightarrow>
     mset indices = mset [0..<length xs] \<and> sorted (map (\<lambda>i. xs ! i) indices)"

definition rank_students ::
    "('b list \<Rightarrow> nat list) \<Rightarrow> 'a list \<Rightarrow> 'b list \<Rightarrow> error + ('a list \<times> 'b list \<times> nat list)" where
  "rank_students argsort student_names averages =
     (let sorted_indices = rev (argsort averages) in
      case take_indices student_names sorted_indices of
        Inl e \<Rightarrow> Inl e
      | Inr ranked_names \<Rightarrow>
          (case take_indices averages sorted_indices of
             Inl e \<Rightarrow> Inl e
           | Inr ranked_averages \<Rightarrow>
               (let ranks = [1..<length student_names + 1]
                in Inr (ranked_names, ranked_averages, ranks))))"

text \<open>
  NumPy's contract does not say in which order equal elements come: the program calls
  \<^verbatim>\<open>np.argsort\<close> without naming a sorting algorithm, and the default one is not promised
  to be stable. Two functions that keep the contract and differ on equal elements:
  \<open>stable_argsort\<close> is the stable sort of the indices (the one section 4.3 of the
  specification describes), \<open>argsort_ties_descending\<close> leaves equal elements in
  descending order of their indices. They stand for \<^verbatim>\<open>np.argsort\<close> in the examples.
\<close>

definition stable_argsort :: "'b::linorder list \<Rightarrow> nat list" where
  "stable_argsort xs = sort_key (\<lambda>i. xs ! i) [0..<length xs]"

definition argsort_ties_descending :: "'b::linorder list \<Rightarrow> nat list" where
  "argsort_ties_descending xs = sort_key (\<lambda>i. xs ! i) (rev [0..<length xs])"

section \<open>Properties\<close>

lemma stable_argsort_ok: "argsort_ok xs (stable_argsort xs)"
  by (simp add: argsort_ok_def stable_argsort_def sorted_sort_key)

lemma argsort_ties_descending_ok: "argsort_ok xs (argsort_ties_descending xs)"
  by (simp add: argsort_ok_def argsort_ties_descending_def sorted_sort_key)

subsection \<open>The statistics engine\<close>

lemma np_max_Max: "r \<noteq> [] \<Longrightarrow> np_max r = Inr (Max (set r))"
  by (cases r) (simp_all flip: Max.set_eq_fold)

lemma np_min_Min: "r \<noteq> [] \<Longrightarrow> np_min r = Inr (Min (set r))"
  by (cases r) (simp_all flip: Min.set_eq_fold)

lemma collect_np_max:
  "list_all (\<lambda>r. r \<noteq> []) rs \<Longrightarrow> collect (map np_max rs) = Inr (map (\<lambda>r. Max (set r)) rs)"
  by (induction rs) (simp_all add: np_max_Max)

lemma collect_np_min:
  "list_all (\<lambda>r. r \<noteq> []) rs \<Longrightarrow> collect (map np_min rs) = Inr (map (\<lambda>r. Min (set r)) rs)"
  by (induction rs) (simp_all add: np_min_Min)

lemma rows_nonempty:
  "shape_ok a \<Longrightarrow> 1 \<le> n_subjects a \<Longrightarrow> list_all (\<lambda>r. r \<noteq> []) (rows a)"
  by (auto simp: shape_ok_def list_all_iff)

text \<open>With at least one column the call returns, and this is what it returns.\<close>

lemma statistics_result:
  assumes "shape_ok a" "1 \<le> n_subjects a"
  shows "calculate_student_statistics a =
    Inr (map np_mean (rows a), map (\<lambda>r. Max (set r)) (rows a),
         map (\<lambda>r. Min (set r)) (rows a), map (np_std 0) (rows a))"
  using assms rows_nonempty[OF assms]
  by (simp add: calculate_student_statistics_def np_max_axis1_def np_min_axis1_def
      np_mean_axis1_def np_std_axis1_def collect_np_max collect_np_min)

text \<open>The deviation the program asks for, with \<^verbatim>\<open>ddof\<close> at \<open>0\<close>.\<close>

lemma np_std_0: "np_std 0 r = sqrt ((\<Sum>x\<leftarrow>r. (x - np_mean r)\<^sup>2) / real (length r))"
  by (simp add: np_std_def np_var_def Let_def power2_eq_square comp_def)

subsection \<open>The statistics in exact arithmetic\<close>

text \<open>
  In exact arithmetic the mean of a row lies between its minimum and its maximum, the
  deviation is the population deviation of the row (divisor \<open>C\<close>), and it is zero
  exactly when the row is constant. These facts are about the real numbers of the
  model. They do not carry over to binary64: for the row
  \<^verbatim>\<open>[0.1, 0.1, 0.1]\<close> the sum rounds to \<^verbatim>\<open>0.30000000000000004\<close>, so NumPy's mean is
  \<^verbatim>\<open>0.10000000000000002\<close>, above the maximum \<^verbatim>\<open>0.1\<close>, and its deviation is
  \<^verbatim>\<open>1.3877787807814457e-17\<close>, not zero.
\<close>

lemma np_mean_bounds:
  assumes "r \<noteq> []"
  shows "Min (set r) \<le> np_mean r" and "np_mean r \<le> Max (set r)"
proof -
  have n: "0 < real (length r)"
    using assms by simp
  have "(\<Sum>x\<leftarrow>r. Min (set r)) \<le> (\<Sum>x\<leftarrow>r. x)"
    by (rule sum_list_mono) simp
  then have "real (length r) * Min (set r) \<le> sum_list r"
    by (simp add: sum_list_triv)
  then show "Min (set r) \<le> np_mean r"
    using n by (simp add: np_mean_def pos_le_divide_eq mult.commute)
  have "(\<Sum>x\<leftarrow>r. x) \<le> (\<Sum>x\<leftarrow>r. Max (set r))"
    by (rule sum_list_mono) simp
  then have "sum_list r \<le> real (length r) * Max (set r)"
    by (simp add: sum_list_triv)
  then show "np_mean r \<le> Max (set r)"
    using n by (simp add: np_mean_def pos_divide_le_eq mult.commute)
qed

lemma np_mean_constant:
  assumes "r \<noteq> []" "\<forall>x\<in>set r. x = c"
  shows "np_mean r = c"
proof -
  have "(\<Sum>x\<leftarrow>r. x) = (\<Sum>x\<leftarrow>r. c)"
    using assms(2) by (intro arg_cong[where f = sum_list] map_cong) simp_all
  then have "sum_list r = real (length r) * c"
    by (simp add: sum_list_triv)
  then show ?thesis
    using assms(1) by (simp add: np_mean_def)
qed

lemma np_std_zero_iff:
  assumes "r \<noteq> []"
  shows "np_std 0 r = 0 \<longleftrightarrow> (\<forall>x\<in>set r. \<forall>y\<in>set r. x = y)"
proof -
  have "np_std 0 r = 0 \<longleftrightarrow> (\<Sum>x\<leftarrow>r. (x - np_mean r)\<^sup>2) = 0"
    using assms by (simp add: np_std_0)
  also have "\<dots> \<longleftrightarrow> (\<forall>x\<in>set r. x = np_mean r)"
    by (subst sum_list_nonneg_eq_0_iff) auto
  also have "\<dots> \<longleftrightarrow> (\<forall>x\<in>set r. \<forall>y\<in>set r. x = y)"
  proof
    assume "\<forall>x\<in>set r. x = np_mean r"
    then show "\<forall>x\<in>set r. \<forall>y\<in>set r. x = y"
      by metis
  next
    assume eq: "\<forall>x\<in>set r. \<forall>y\<in>set r. x = y"
    from assms obtain c where c: "c \<in> set r"
      by (cases r) auto
    with eq have "\<forall>x\<in>set r. x = c"
      by blast
    with np_mean_constant[OF assms this] show "\<forall>x\<in>set r. x = np_mean r"
      by simp
  qed
  finally show ?thesis .
qed

lemma statistics_mean_bounds_exact:
  assumes "shape_ok marks" "1 \<le> n_subjects marks"
  shows "\<exists>averages maximums minimums std_devs.
     calculate_student_statistics marks = Inr (averages, maximums, minimums, std_devs) \<and>
     length averages = n_students marks \<and>
     (\<forall>i<n_students marks.
        averages ! i = sum_list (rows marks ! i) / real (n_subjects marks) \<and>
        minimums ! i = Min (set (rows marks ! i)) \<and>
        maximums ! i = Max (set (rows marks ! i)) \<and>
        minimums ! i \<le> averages ! i \<and> averages ! i \<le> maximums ! i)"
proof -
  have len: "length (rows marks) = n_students marks"
    using assms(1) by (simp add: shape_ok_def)
  have cols: "length (rows marks ! i) = n_subjects marks" if "i < n_students marks" for i
    using assms(1) that by (simp add: shape_ok_def list_all_length)
  have ne: "rows marks ! i \<noteq> []" if "i < n_students marks" for i
    using cols[OF that] assms(2) by auto
  show ?thesis
    unfolding statistics_result[OF assms]
    using len cols ne by (simp add: np_mean_bounds) (simp add: np_mean_def)
qed

lemma statistics_std_zero_iff_exact:
  assumes "shape_ok marks" "1 \<le> n_subjects marks"
  shows "\<exists>averages maximums minimums std_devs.
     calculate_student_statistics marks = Inr (averages, maximums, minimums, std_devs) \<and>
     (\<forall>i<n_students marks.
        std_devs ! i = 0 \<longleftrightarrow> (\<forall>x\<in>set (rows marks ! i). \<forall>y\<in>set (rows marks ! i). x = y))"
proof -
  have len: "length (rows marks) = n_students marks"
    using assms(1) by (simp add: shape_ok_def)
  have cols: "length (rows marks ! i) = n_subjects marks" if "i < n_students marks" for i
    using assms(1) that by (simp add: shape_ok_def list_all_length)
  have ne: "rows marks ! i \<noteq> []" if "i < n_students marks" for i
    using cols[OF that] assms(2) by auto
  show ?thesis
    unfolding statistics_result[OF assms]
    using len ne by (simp add: np_std_zero_iff)
qed

lemma statistics_population_std_exact:
  assumes "shape_ok marks" "1 \<le> n_subjects marks"
  shows "\<exists>averages maximums minimums std_devs.
     calculate_student_statistics marks = Inr (averages, maximums, minimums, std_devs) \<and>
     length averages = n_students marks \<and> length std_devs = n_students marks \<and>
     (\<forall>i<n_students marks.
        averages ! i = sum_list (rows marks ! i) / real (n_subjects marks) \<and>
        std_devs ! i =
          sqrt ((\<Sum>x\<leftarrow>rows marks ! i. (x - averages ! i)\<^sup>2) / real (n_subjects marks)))"
proof -
  have len: "length (rows marks) = n_students marks"
    using assms(1) by (simp add: shape_ok_def)
  have cols: "length (rows marks ! i) = n_subjects marks" if "i < n_students marks" for i
    using assms(1) that by (simp add: shape_ok_def list_all_length)
  show ?thesis
    unfolding statistics_result[OF assms]
    using len cols by (simp add: np_std_0) (simp add: np_mean_def)
qed

subsection \<open>The ranker\<close>

lemma argsort_ok_set: "argsort_ok xs indices \<Longrightarrow> set indices = {0..<length xs}"
  by (metis argsort_ok_def set_mset_mset set_upt)

lemma argsort_ok_length: "argsort_ok xs indices \<Longrightarrow> length indices = length xs"
  by (metis argsort_ok_def size_mset length_upt diff_zero)

lemma take_indices_Inr:
  "set indices \<subseteq> {0..<length arr} \<Longrightarrow>
     take_indices arr indices = Inr (map (\<lambda>i. arr ! i) indices)"
  by (auto simp: take_indices_def list_all_iff)

lemma take_indices_Inl:
  assumes "i \<in> set indices" "length arr \<le> i"
  shows "take_indices arr indices = Inl IndexError"
proof -
  have "\<not> (\<forall>j\<in>set indices. j < length arr)"
    using assms by (meson not_less)
  then show ?thesis
    by (simp add: take_indices_def list_all_iff)
qed

text \<open>
  What \<open>rank_students\<close> returns, for any \<open>argsort\<close> that keeps NumPy's contract on the
  given means: the lookup of the names fails when the largest index is out of their
  bounds, and only then.
\<close>

lemma rank_students_result:
  assumes "argsort_ok averages (argsort averages)"
  shows "rank_students argsort student_names averages =
    (if length averages \<le> length student_names
     then Inr (map (\<lambda>i. student_names ! i) (rev (argsort averages)),
               map (\<lambda>i. averages ! i) (rev (argsort averages)),
               [1..<length student_names + 1])
     else Inl IndexError)"
proof (cases "length averages \<le> length student_names")
  case True
  have s: "set (rev (argsort averages)) = {0..<length averages}"
    using argsort_ok_set[OF assms] by simp
  have "take_indices student_names (rev (argsort averages)) =
      Inr (map (\<lambda>i. student_names ! i) (rev (argsort averages)))"
    using s True by (intro take_indices_Inr) auto
  moreover have "take_indices averages (rev (argsort averages)) =
      Inr (map (\<lambda>i. averages ! i) (rev (argsort averages)))"
    using s by (intro take_indices_Inr) auto
  ultimately show ?thesis using True
    by (simp add: rank_students_def Let_def)
next
  case False
  then have "length averages - 1 \<in> set (rev (argsort averages))"
    using argsort_ok_set[OF assms] by auto
  moreover have "length student_names \<le> length averages - 1"
    using False by simp
  ultimately have "take_indices student_names (rev (argsort averages)) = Inl IndexError"
    by (rule take_indices_Inl)
  then show ?thesis using False
    by (simp add: rank_students_def)
qed

lemma mset_map_nth_perm:
  assumes "mset indices = mset [0..<length xs]"
  shows "mset (map (\<lambda>i. xs ! i) indices) = mset xs"
proof -
  have "mset (map (\<lambda>i. xs ! i) indices) = image_mset (\<lambda>i. xs ! i) (mset indices)"
    by simp
  also have "\<dots> = mset (map (\<lambda>i. xs ! i) [0..<length xs])"
    using assms by simp
  also have "\<dots> = mset xs"
    by (simp add: map_nth)
  finally show ?thesis .
qed

text \<open>
  When the elements are pairwise distinct, NumPy's contract leaves \<open>argsort\<close> no
  choice.
\<close>

lemma argsort_unique:
  assumes "argsort_ok xs indices" "distinct xs"
  shows "indices = stable_argsort xs"
proof -
  have "mset [0..<length xs] = mset indices"
    using assms(1) by (simp add: argsort_ok_def)
  moreover have "inj_on (\<lambda>i. xs ! i) (set [0..<length xs])"
    using assms(2) by (auto simp: inj_on_def nth_eq_iff_index_eq)
  moreover have "sorted (map (\<lambda>i. xs ! i) indices)"
    using assms(1) by (simp add: argsort_ok_def)
  ultimately have "sort_key (\<lambda>i. xs ! i) [0..<length xs] = indices"
    by (rule sort_key_inj_key_eq)
  then show ?thesis
    by (simp add: stable_argsort_def)
qed

text \<open>Read along the reversed index array, the elements descend.\<close>

lemma argsort_ok_descending:
  assumes "argsort_ok xs indices"
  shows "sorted_wrt (\<lambda>a b. b \<le> a) (map (\<lambda>i. xs ! i) (rev indices))"
proof -
  have "sorted (map (\<lambda>i. xs ! i) indices)"
    using assms by (simp add: argsort_ok_def)
  then have "sorted_wrt (\<lambda>a b. b \<le> a) (rev (map (\<lambda>i. xs ! i) indices))"
    by (simp only: sorted_wrt_rev)
  then show ?thesis
    by (simp only: rev_map)
qed

subsection \<open>The stable sort of the indices\<close>

text \<open>
  Inserting an index smaller than all those present keeps the list ordered by key, and
  among equal keys by index: the insertion stops at the first key that is not smaller.
\<close>

lemma insort_key_tie_order:
  fixes f :: "nat \<Rightarrow> 'b::linorder"
  assumes "sorted_wrt (\<lambda>i j. f i < f j \<or> (f i = f j \<and> i < j)) ys"
    and "\<forall>y\<in>set ys. x < y"
  shows "sorted_wrt (\<lambda>i j. f i < f j \<or> (f i = f j \<and> i < j)) (insort_key f x ys)"
  using assms
proof (induction ys)
  case Nil
  then show ?case by simp
next
  case (Cons y ys)
  then show ?case
    by (auto simp: set_insort_key)
qed

lemma sort_key_tie_order:
  fixes f :: "nat \<Rightarrow> 'b::linorder"
  assumes "sorted_wrt (<) xs"
  shows "sorted_wrt (\<lambda>i j. f i < f j \<or> (f i = f j \<and> i < j)) (sort_key f xs)"
  using assms
proof (induction xs)
  case Nil
  then show ?case by simp
next
  case (Cons x xs)
  then show ?case
    by (auto intro!: insort_key_tie_order)
qed

lemma stable_argsort_tie_order:
  "sorted_wrt (\<lambda>i j. xs ! j < xs ! i \<or> (xs ! i = xs ! j \<and> j < i)) (rev (stable_argsort xs))"
proof -
  have "sorted_wrt (\<lambda>i j. xs ! i < xs ! j \<or> (xs ! i = xs ! j \<and> i < j)) (stable_argsort xs)"
    unfolding stable_argsort_def by (rule sort_key_tie_order) simp
  then have "sorted_wrt (\<lambda>j i. xs ! j < xs ! i \<or> (xs ! i = xs ! j \<and> j < i)) (stable_argsort xs)"
    by (rule sorted_wrt_mono_rel[rotated]) auto
  then show ?thesis
    by (simp add: sorted_wrt_rev)
qed

subsection \<open>The fixed data\<close>

lemma demo_argsort: "stable_argsort [86.6, 82, 92.2, 71.6, 87 :: real] = [3, 1, 0, 4, 2]"
  by (simp add: stable_argsort_def upt_rec)


section \<open>The claims\<close>

text \<open>
  C1. An array with an empty row has no columns, and \<open>calculate_student_statistics\<close>
  returns no statistics for it: the call ends with the exception of the maximum reduction
  over the empty axis. The program has no error class of its own; the specification's
  ShapeError is Python's \<^verbatim>\<open>ValueError\<close> here, raised by \<^verbatim>\<open>np.max\<close>. (The mean computed
  before it only warns.)
\<close>

theorem empty_row_raises:
  assumes "shape_ok marks" "[] \<in> set (rows marks)"
  shows "calculate_student_statistics marks = Inl ValueError"
proof -
  from assms have "n_subjects marks = 0"
    by (auto simp: shape_ok_def list_all_iff)
  then show ?thesis
    by (simp add: calculate_student_statistics_def np_max_axis1_def)
qed

theorem empty_row_raises_witness:
  "shape_ok \<lparr>n_students = 2, n_subjects = 0, rows = [[], []]\<rparr> \<and>
   [] \<in> set (rows \<lparr>n_students = 2, n_subjects = 0, rows = [[], []]\<rparr>) \<and>
   calculate_student_statistics \<lparr>n_students = 2, n_subjects = 0, rows = [[], []]\<rparr>
     = Inl ValueError"
proof -
  have h1: "shape_ok \<lparr>n_students = 2, n_subjects = 0, rows = [[], []]\<rparr>"
    by (simp add: shape_ok_def)
  have h2: "[] \<in> set (rows \<lparr>n_students = 2, n_subjects = 0, rows = [[], []]\<rparr>)"
    by simp
  show ?thesis
    using h1 h2 empty_row_raises[OF h1 h2] by simp
qed

text \<open>
  C2. The claim says that equal means always come out in the reverse of their row order.
  The code reverses whatever \<^verbatim>\<open>np.argsort\<close> returns, and the contract lets the index array
  \<open>[3, 2, 1, 0]\<close> sort the means \<open>[1, 1, 0, 0]\<close>: with it the tied students stay in
  row order. The stable sort gives the reverse of row order on the same input.
\<close>

theorem rank_students_ties_in_row_order_counterexample:
  "argsort_ties_descending [1::real, 1, 0, 0] = [3, 2, 1, 0] \<and>
   argsort_ok [1::real, 1, 0, 0] (argsort_ties_descending [1::real, 1, 0, 0]) \<and>
   rank_students argsort_ties_descending [''Alice'', ''Bob'', ''Charlie'', ''David'']
       [1::real, 1, 0, 0] =
     Inr ([''Alice'', ''Bob'', ''Charlie'', ''David''], [1, 1, 0, 0], [1, 2, 3, 4]) \<and>
   rank_students stable_argsort [''Alice'', ''Bob'', ''Charlie'', ''David'']
       [1::real, 1, 0, 0] =
     Inr ([''Bob'', ''Alice'', ''David'', ''Charlie''], [1, 1, 0, 0], [1, 2, 3, 4])"
  by (simp add: rank_students_def argsort_ties_descending_def stable_argsort_def
      take_indices_def argsort_ok_def upt_rec)

text \<open>
  C2, amended. For labels and means of equal length \<open>R\<close>, and an \<open>argsort\<close> that keeps
  NumPy's contract, \<open>rank_students\<close> reverses the ascending index array of the means and
  reads the labels and the means along it: the order is a permutation of the indices, the
  ranked means descend, and of two students with different means the one with the greater
  mean comes first. The order of students with equal means is the one \<open>argsort\<close> leaves,
  reversed; when \<open>argsort\<close> sorts stably, it is the reverse of their row order.
\<close>

theorem rank_students_reversed_argsort_order:
  assumes "length student_names = length averages"
    and "argsort_ok averages (argsort averages)"
  shows "rank_students argsort student_names averages =
           Inr (map (\<lambda>i. student_names ! i) (rev (argsort averages)),
                map (\<lambda>i. averages ! i) (rev (argsort averages)),
                [1..<length student_names + 1]) \<and>
         mset (rev (argsort averages)) = mset [0..<length averages] \<and>
         sorted (map (\<lambda>i. averages ! i) (argsort averages)) \<and>
         sorted_wrt (\<lambda>a b. b \<le> a) (map (\<lambda>i. averages ! i) (rev (argsort averages))) \<and>
         (\<forall>p q. p < length averages \<and> q < length averages \<and>
             averages ! (rev (argsort averages) ! q) < averages ! (rev (argsort averages) ! p)
            \<longrightarrow> p < q) \<and>
         (argsort averages = sort_key (\<lambda>i. averages ! i) [0..<length averages] \<longrightarrow>
            (\<forall>p q. p < q \<and> q < length averages \<and>
                averages ! (rev (argsort averages) ! p) = averages ! (rev (argsort averages) ! q)
               \<longrightarrow> rev (argsort averages) ! q < rev (argsort averages) ! p))"
proof -
  let ?idx = "rev (argsort averages)"
  have len: "length ?idx = length averages"
    using argsort_ok_length[OF assms(2)] by simp
  have res: "rank_students argsort student_names averages =
           Inr (map (\<lambda>i. student_names ! i) ?idx, map (\<lambda>i. averages ! i) ?idx,
                [1..<length student_names + 1])"
    using assms(1) by (simp add: rank_students_result[where argsort = argsort, OF assms(2)])
  have perm: "mset ?idx = mset [0..<length averages]"
    using assms(2) by (simp add: argsort_ok_def)
  have asc: "sorted (map (\<lambda>i. averages ! i) (argsort averages))"
    using assms(2) by (simp add: argsort_ok_def)
  have desc: "sorted_wrt (\<lambda>a b. b \<le> a) (map (\<lambda>i. averages ! i) ?idx)"
    using assms(2) by (rule argsort_ok_descending)
  have greater_first: "p < q"
    if "p < length averages" "q < length averages"
      "averages ! (?idx ! q) < averages ! (?idx ! p)" for p q
  proof (rule ccontr)
    assume "\<not> p < q"
    then have "q = p \<or> q < p"
      by auto
    then show False
    proof
      assume "q = p"
      with that(3) show False by simp
    next
      assume "q < p"
      then have "map (\<lambda>i. averages ! i) ?idx ! p \<le> map (\<lambda>i. averages ! i) ?idx ! q"
        using sorted_wrt_nth_less[OF desc, of q p] that(1) len by simp
      with that len \<open>q < p\<close> show False by simp
    qed
  qed
  have ties: "?idx ! q < ?idx ! p"
    if st: "argsort averages = sort_key (\<lambda>i. averages ! i) [0..<length averages]"
      and "p < q" "q < length averages" "averages ! (?idx ! p) = averages ! (?idx ! q)" for p q
  proof -
    have "argsort averages = stable_argsort averages"
      using st by (simp add: stable_argsort_def)
    then have sw: "sorted_wrt (\<lambda>i j. averages ! j < averages ! i \<or>
        (averages ! i = averages ! j \<and> j < i)) ?idx"
      using stable_argsort_tie_order[of averages] by simp
    show ?thesis
      using sorted_wrt_nth_less[OF sw, of p q] that(2-4) len by auto
  qed
  from res perm asc desc greater_first ties show ?thesis
    by blast
qed

theorem rank_students_reversed_argsort_order_witness:
  "length [''a'', ''b'', ''c'', ''d''] = length [7::real, 5, 7, 5] \<and>
   argsort_ok [7::real, 5, 7, 5] (stable_argsort [7::real, 5, 7, 5]) \<and>
   stable_argsort [7::real, 5, 7, 5] = sort_key (\<lambda>i. [7::real, 5, 7, 5] ! i) [0..<length [7::real, 5, 7, 5]] \<and>
   rev (stable_argsort [7::real, 5, 7, 5]) = [2, 0, 3, 1] \<and>
   rank_students stable_argsort [''a'', ''b'', ''c'', ''d''] [7::real, 5, 7, 5] =
     Inr ([''c'', ''a'', ''d'', ''b''], [7, 7, 5, 5], [1, 2, 3, 4])"
proof -
  have h1: "length [''a'', ''b'', ''c'', ''d''] = length [7::real, 5, 7, 5]"
    by simp
  have h2: "argsort_ok [7::real, 5, 7, 5] (stable_argsort [7::real, 5, 7, 5])"
    by (rule stable_argsort_ok)
  have st: "stable_argsort [7::real, 5, 7, 5] =
      sort_key (\<lambda>i. [7::real, 5, 7, 5] ! i) [0..<length [7::real, 5, 7, 5]]"
    by (simp add: stable_argsort_def)
  have i: "rev (stable_argsort [7::real, 5, 7, 5]) = [2, 0, 3, 1]"
    by (simp add: stable_argsort_def upt_rec)
  have r: "[1..<length [''a'', ''b'', ''c'', ''d''] + 1] = [1, 2, 3, 4]"
    by code_simp
  have "rank_students stable_argsort [''a'', ''b'', ''c'', ''d''] [7::real, 5, 7, 5] =
     Inr ([''c'', ''a'', ''d'', ''b''], [7, 7, 5, 5], [1, 2, 3, 4])"
    using rank_students_reversed_argsort_order[where argsort = stable_argsort, OF h1 h2]
    unfolding i r by simp
  with h1 h2 st i show ?thesis
    by blast
qed

text \<open>
  C3. The claim says that \<open>rank_students\<close> fails whenever the numbers of labels and of
  means differ. It does not when there are more labels than means: the means are ranked,
  the surplus labels are never looked up, and the ranks still count the labels.
\<close>

theorem rank_students_longer_labels_counterexample:
  "length [''Alice'', ''Bob''] \<noteq> length [1::real] \<and>
   rank_students stable_argsort [''Alice'', ''Bob''] [1::real] = Inr ([''Alice''], [1], [1, 2])"
  by (simp add: rank_students_def stable_argsort_def take_indices_def)

text \<open>
  C3, amended. For an \<open>argsort\<close> that keeps NumPy's contract, \<open>rank_students\<close> fails
  exactly when there are fewer labels than means, with the \<^verbatim>\<open>IndexError\<close> of the label
  lookup. With at least as many labels as means, and so for every pair of equal lengths
  (zero included), it returns: the labels and the means read along the reversed index
  array of the means, which lists every index of the means once and along which the
  means descend, and the ranks \<open>1, 2, \<dots>\<close> up to the number of labels. Labels beyond
  the means are never looked up.
\<close>

theorem rank_students_fails_iff_fewer_labels:
  assumes "argsort_ok averages (argsort averages)"
  shows "rank_students argsort student_names averages =
           (if length student_names < length averages then Inl IndexError
            else Inr (map (\<lambda>i. student_names ! i) (rev (argsort averages)),
                      map (\<lambda>i. averages ! i) (rev (argsort averages)),
                      [1..<length student_names + 1])) \<and>
         mset (rev (argsort averages)) = mset [0..<length averages] \<and>
         sorted_wrt (\<lambda>a b. b \<le> a) (map (\<lambda>i. averages ! i) (rev (argsort averages))) \<and>
         (rank_students argsort student_names averages = Inl IndexError
            \<longleftrightarrow> length student_names < length averages) \<and>
         ((\<exists>r. rank_students argsort student_names averages = Inr r)
            \<longleftrightarrow> length averages \<le> length student_names)"
proof -
  have res: "rank_students argsort student_names averages =
           (if length student_names < length averages then Inl IndexError
            else Inr (map (\<lambda>i. student_names ! i) (rev (argsort averages)),
                      map (\<lambda>i. averages ! i) (rev (argsort averages)),
                      [1..<length student_names + 1]))"
    by (simp add: rank_students_result[where argsort = argsort, OF assms] not_less)
  have perm: "mset (rev (argsort averages)) = mset [0..<length averages]"
    using assms by (simp add: argsort_ok_def)
  have desc: "sorted_wrt (\<lambda>a b. b \<le> a) (map (\<lambda>i. averages ! i) (rev (argsort averages)))"
    using assms by (rule argsort_ok_descending)
  have "rank_students argsort student_names averages = Inl IndexError
            \<longleftrightarrow> length student_names < length averages"
    by (simp add: res)
  moreover have "(\<exists>r. rank_students argsort student_names averages = Inr r)
            \<longleftrightarrow> length averages \<le> length student_names"
    by (auto simp: res)
  ultimately show ?thesis
    using res perm desc by blast
qed

theorem rank_students_fails_iff_fewer_labels_witness:
  "argsort_ok [1::real, 2] (stable_argsort [1::real, 2]) \<and>
   rank_students stable_argsort [''Alice''] [1::real, 2] = Inl IndexError \<and>
   rank_students stable_argsort [''Alice'', ''Bob''] [1::real, 2] =
     Inr ([''Bob'', ''Alice''], [2, 1], [1, 2]) \<and>
   rank_students stable_argsort [''Alice'', ''Bob'', ''Charlie''] [1::real, 2] =
     Inr ([''Bob'', ''Alice''], [2, 1], [1, 2, 3])"
proof -
  have h: "argsort_ok [1::real, 2] (stable_argsort [1::real, 2])"
    by (rule stable_argsort_ok)
  have i: "rev (stable_argsort [1::real, 2]) = [1, 0]"
    by (simp add: stable_argsort_def upt_rec)
  have r2: "[1..<length [''Alice'', ''Bob''] + 1] = [1, 2]"
    by code_simp
  have r3: "[1..<length [''Alice'', ''Bob'', ''Charlie''] + 1] = [1, 2, 3]"
    by code_simp
  have a: "rank_students stable_argsort [''Alice''] [1::real, 2] = Inl IndexError"
    using rank_students_fails_iff_fewer_labels[where argsort = stable_argsort
      and student_names = "[''Alice'']", OF h]
    by simp
  have b: "rank_students stable_argsort [''Alice'', ''Bob''] [1::real, 2] =
     Inr ([''Bob'', ''Alice''], [2, 1], [1, 2])"
    using rank_students_fails_iff_fewer_labels[where argsort = stable_argsort
      and student_names = "[''Alice'', ''Bob'']", OF h]
    unfolding i r2 by simp
  have c: "rank_students stable_argsort [''Alice'', ''Bob'', ''Charlie''] [1::real, 2] =
     Inr ([''Bob'', ''Alice''], [2, 1], [1, 2, 3])"
    using rank_students_fails_iff_fewer_labels[where argsort = stable_argsort
      and student_names = "[''Alice'', ''Bob'', ''Charlie'']", OF h]
    unfolding i r3 by simp
  from h a b c show ?thesis
    by blast
qed

text \<open>
  C4. On the fixed data \<open>calculate_student_statistics\<close> returns the means
  \<open>86.6, 82, 92.2, 71.6, 87\<close> (exactly, hence to two decimal places), and for these
  means and the five names \<open>rank_students\<close>, with any \<open>argsort\<close> that keeps NumPy's
  contract, returns Charlie, Eve, Alice, Bob, David with the means
  \<open>92.2, 87, 86.6, 82, 71.6\<close> and the ranks \<open>1, 2, 3, 4, 5\<close>.
\<close>

theorem demo_means_and_ranking:
  assumes "argsort_ok [86.6, 82, 92.2, 71.6, 87 :: real] (argsort [86.6, 82, 92.2, 71.6, 87 :: real])"
  shows "case create_student_data of (marks, student_names, subjects) \<Rightarrow>
     (\<exists>std_devs. calculate_student_statistics marks =
        Inr ([86.6, 82, 92.2, 71.6, 87], [92, 88, 95, 75, 89], [78, 76, 89, 68, 85], std_devs)) \<and>
     rank_students argsort student_names [86.6, 82, 92.2, 71.6, 87 :: real] =
        Inr ([''Charlie'', ''Eve'', ''Alice'', ''Bob'', ''David''],
             [92.2, 87, 86.6, 82, 71.6], [1, 2, 3, 4, 5])"
proof -
  let ?marks = "fst create_student_data"
  have ok: "shape_ok ?marks" "1 \<le> n_subjects ?marks"
    by (simp_all add: create_student_data_def shape_ok_def)
  have stats: "\<exists>std_devs. calculate_student_statistics ?marks =
        Inr ([86.6, 82, 92.2, 71.6, 87], [92, 88, 95, 75, 89], [78, 76, 89, 68, 85], std_devs)"
    unfolding statistics_result[OF ok]
    by (simp add: create_student_data_def np_mean_def)
  have "argsort [86.6, 82, 92.2, 71.6, 87 :: real] = stable_argsort [86.6, 82, 92.2, 71.6, 87 :: real]"
    using assms by (rule argsort_unique) simp
  then have idx: "argsort [86.6, 82, 92.2, 71.6, 87 :: real] = [3, 1, 0, 4, 2]"
    by (simp only: demo_argsort)
  have r: "[1..<length [''Alice'', ''Bob'', ''Charlie'', ''David'', ''Eve''] + 1] = [1, 2, 3, 4, 5]"
    by code_simp
  have "rank_students argsort [''Alice'', ''Bob'', ''Charlie'', ''David'', ''Eve'']
          [86.6, 82, 92.2, 71.6, 87 :: real] =
        Inr ([''Charlie'', ''Eve'', ''Alice'', ''Bob'', ''David''],
             [92.2, 87, 86.6, 82, 71.6], [1, 2, 3, 4, 5])"
    unfolding rank_students_result[where argsort = argsort, OF assms] idx r
    by simp
  with stats show ?thesis
    by (simp add: create_student_data_def)
qed

theorem demo_means_and_ranking_witness:
  "argsort_ok [86.6, 82, 92.2, 71.6, 87 :: real] (stable_argsort [86.6, 82, 92.2, 71.6, 87 :: real]) \<and>
   rank_students stable_argsort [''Alice'', ''Bob'', ''Charlie'', ''David'', ''Eve'']
       [86.6, 82, 92.2, 71.6, 87 :: real] =
     Inr ([''Charlie'', ''Eve'', ''Alice'', ''Bob'', ''David''],
          [92.2, 87, 86.6, 82, 71.6], [1, 2, 3, 4, 5])"
proof -
  have h: "argsort_ok [86.6, 82, 92.2, 71.6, 87 :: real] (stable_argsort [86.6, 82, 92.2, 71.6, 87 :: real])"
    by (rule stable_argsort_ok)
  show ?thesis
    using demo_means_and_ranking[where argsort = stable_argsort, OF h] h
    by (simp add: create_student_data_def)
qed

text \<open>
  C6. For labels and means of equal length \<open>R\<close>, and an \<open>argsort\<close> that keeps NumPy's
  contract, \<open>rank_students\<close> returns; the ranked labels are a permutation of the labels
  (and the ranked means of the means), and the ranks are \<open>1, 2, \<dots>, R\<close> whatever the
  means are.
\<close>

theorem rank_students_permutation_and_ranks:
  assumes "length student_names = length averages"
    and "argsort_ok averages (argsort averages)"
  shows "\<exists>ranked_names ranked_averages.
           rank_students argsort student_names averages =
             Inr (ranked_names, ranked_averages, [1..<length student_names + 1]) \<and>
           mset ranked_names = mset student_names \<and>
           mset ranked_averages = mset averages"
proof -
  have p: "mset (rev (argsort averages)) = mset [0..<length averages]"
    using assms(2) by (simp add: argsort_ok_def)
  have "mset (map (\<lambda>i. student_names ! i) (rev (argsort averages))) = mset student_names"
    using p assms(1) by (intro mset_map_nth_perm) simp
  moreover have "mset (map (\<lambda>i. averages ! i) (rev (argsort averages))) = mset averages"
    using p by (intro mset_map_nth_perm) simp
  ultimately show ?thesis
    using assms(1) by (simp add: rank_students_result[where argsort = argsort, OF assms(2)])
qed

theorem rank_students_permutation_and_ranks_witness:
  "length [''a'', ''b'', ''c''] = length [2::real, 1, 2] \<and>
   argsort_ok [2::real, 1, 2] (stable_argsort [2::real, 1, 2]) \<and>
   rank_students stable_argsort [''a'', ''b'', ''c''] [2::real, 1, 2] =
     Inr ([''c'', ''a'', ''b''], [2, 2, 1], [1, 2, 3]) \<and>
   mset [''c'', ''a'', ''b''] = mset [''a'', ''b'', ''c'']"
proof -
  have h1: "length [''a'', ''b'', ''c''] = length [2::real, 1, 2]"
    by simp
  have h2: "argsort_ok [2::real, 1, 2] (stable_argsort [2::real, 1, 2])"
    by (rule stable_argsort_ok)
  obtain ranked_names ranked_averages where
    r: "rank_students stable_argsort [''a'', ''b'', ''c''] [2::real, 1, 2] =
          Inr (ranked_names, ranked_averages, [1..<length [''a'', ''b'', ''c''] + 1])"
    and m: "mset ranked_names = mset [''a'', ''b'', ''c'']"
    using rank_students_permutation_and_ranks[where argsort = stable_argsort, OF h1 h2] by blast
  have e: "rank_students stable_argsort [''a'', ''b'', ''c''] [2::real, 1, 2] =
      Inr ([''c'', ''a'', ''b''], [2, 2, 1], [1, 2, 3])"
    by (simp add: rank_students_def stable_argsort_def take_indices_def upt_rec)
  from r e have "ranked_names = [''c'', ''a'', ''b'']"
    by simp
  with m h1 h2 e show ?thesis
    by simp
qed

text \<open>
  C9. The fixed data satisfy the invariants of the data model: five rows of five
  non-negative marks each, five pairwise distinct student names, one per row, and five
  subject names, one per column.
\<close>

theorem create_student_data_invariant:
  "case create_student_data of (marks, student_names, subjects) \<Rightarrow>
     data_model_invariant marks student_names subjects \<and>
     n_students marks = 5 \<and> n_subjects marks = 5"
  by (simp add: create_student_data_def data_model_invariant_def
      score_matrix_invariant_def shape_ok_def)

text \<open>
  C10. For labels and means of equal length, and an \<open>argsort\<close> that keeps NumPy's
  contract, the ranked labels and the ranked means are the labels and the means read
  along one and the same permutation of the indices; so at every output position the label
  and the mean come from the same input position.
\<close>

theorem rank_students_keeps_pairs:
  assumes "length student_names = length averages"
    and "argsort_ok averages (argsort averages)"
  shows "\<exists>ranked_names ranked_averages ranks indices.
           rank_students argsort student_names averages =
             Inr (ranked_names, ranked_averages, ranks) \<and>
           mset indices = mset [0..<length student_names] \<and>
           ranked_names = map (\<lambda>i. student_names ! i) indices \<and>
           ranked_averages = map (\<lambda>i. averages ! i) indices \<and>
           length ranked_names = length student_names \<and>
           length ranked_averages = length student_names \<and>
           (\<forall>k<length student_names. \<exists>i<length student_names.
              ranked_names ! k = student_names ! i \<and> ranked_averages ! k = averages ! i)"
proof -
  let ?idx = "rev (argsort averages)"
  have p: "mset ?idx = mset [0..<length student_names]"
    using assms by (simp add: argsort_ok_def)
  have len: "length ?idx = length student_names"
    using argsort_ok_length[OF assms(2)] assms(1) by simp
  have bound: "?idx ! k < length student_names" if "k < length student_names" for k
  proof -
    have "?idx ! k \<in> set ?idx"
      using that len by (intro nth_mem) simp
    also have "set ?idx = {0..<length student_names}"
      using argsort_ok_set[OF assms(2)] assms(1) by simp
    finally show ?thesis by simp
  qed
  have pairs: "\<forall>k<length student_names. \<exists>i<length student_names.
      map (\<lambda>i. student_names ! i) ?idx ! k = student_names ! i \<and>
      map (\<lambda>i. averages ! i) ?idx ! k = averages ! i"
    using bound len by auto
  have res: "rank_students argsort student_names averages =
      Inr (map (\<lambda>i. student_names ! i) ?idx, map (\<lambda>i. averages ! i) ?idx,
           [1..<length student_names + 1])"
    using assms(1) by (simp add: rank_students_result[where argsort = argsort, OF assms(2)])
  from res p len pairs show ?thesis
    by (intro exI[of _ "map (\<lambda>i. student_names ! i) ?idx"]
        exI[of _ "map (\<lambda>i. averages ! i) ?idx"]
        exI[of _ "[1..<length student_names + 1]"] exI[of _ ?idx]) simp
qed

theorem rank_students_keeps_pairs_witness:
  "length [''a'', ''b'', ''c''] = length [3::real, 1, 3] \<and>
   argsort_ok [3::real, 1, 3] (stable_argsort [3::real, 1, 3]) \<and>
   rank_students stable_argsort [''a'', ''b'', ''c''] [3::real, 1, 3] =
     Inr (map (\<lambda>i. [''a'', ''b'', ''c''] ! i) [2, 0, 1],
          map (\<lambda>i. [3::real, 1, 3] ! i) [2, 0, 1], [1, 2, 3]) \<and>
   (\<exists>ranked_names ranked_averages ranks.
      rank_students stable_argsort [''a'', ''b'', ''c''] [3::real, 1, 3] =
        Inr (ranked_names, ranked_averages, ranks) \<and>
      ranked_names ! 0 = [''a'', ''b'', ''c''] ! 2 \<and> ranked_averages ! 0 = [3::real, 1, 3] ! 2)"
proof -
  have h1: "length [''a'', ''b'', ''c''] = length [3::real, 1, 3]"
    by simp
  have h2: "argsort_ok [3::real, 1, 3] (stable_argsort [3::real, 1, 3])"
    by (rule stable_argsort_ok)
  have e: "rank_students stable_argsort [''a'', ''b'', ''c''] [3::real, 1, 3] =
      Inr (map (\<lambda>i. [''a'', ''b'', ''c''] ! i) [2, 0, 1],
           map (\<lambda>i. [3::real, 1, 3] ! i) [2, 0, 1], [1, 2, 3])"
    by (simp add: rank_students_def stable_argsort_def take_indices_def upt_rec)
  show ?thesis
    using rank_students_keeps_pairs[where argsort = stable_argsort, OF h1 h2] h1 h2 e
    by simp
qed

end
